theory Spec2Isabelle
  imports Main
begin

section \<open>Data model\<close>

text \<open>
  The flash controller (\<^verbatim>\<open>flashImageToDrive\<close>, \<^verbatim>\<open>getProgressButtonLabel\<close>,
  \<^verbatim>\<open>downloadImageIfNeeded\<close>) and the image selector service (\<^verbatim>\<open>selectImage\<close>,
  \<^verbatim>\<open>selectImageByPath\<close>, \<^verbatim>\<open>reselectImage\<close>, \<^verbatim>\<open>selectCustomImage\<close>) are embedded as
  functions that pass a \<open>world\<close> along: the flash state, the selection state, the
  controller's own field and the trace of every call made to a collaborator, in order.
  A promise is its final outcome; a promise that is never settled is \<open>Pending\<close>.
\<close>

text \<open>The values \<^verbatim>\<open>image.logo\<close> and \<^verbatim>\<open>image.bmap\<close> hold before \<^verbatim>\<open>Boolean(...)\<close>.\<close>

datatype jsval = Undefined | JBool bool | JStr string

fun js_Boolean :: "jsval \<Rightarrow> bool" where
  "js_Boolean Undefined = False"
| "js_Boolean (JBool b) = b"
| "js_Boolean (JStr s) = (s \<noteq> [])"

text \<open>The image metadata object handed to \<^verbatim>\<open>selectImage\<close>.\<close>

record image =
  path :: string
  imgsize :: nat
  hasMBR :: bool
  logo :: jsval
  bmap :: jsval

text \<open>
  The object handed to \<^verbatim>\<open>flashImageToDrive\<close> and \<^verbatim>\<open>downloadImageIfNeeded\<close>: its
  \<^verbatim>\<open>path\<close> property (\<open>None\<close> when undefined) and the address \<^verbatim>\<open>request\<close> fetches.
\<close>

record source =
  src_path :: "string option"
  src_url :: string

record drive =
  device :: string
  description :: string
  drive_size :: nat
  mountpoint :: string
  system :: bool

record error =
  err_code :: "string option"
  err_message :: string

text \<open>
  The progress state \<^verbatim>\<open>flashState.getFlashState()\<close> returns. A JavaScript number is
  falsy when it is 0 or missing; \<open>speed\<close> is \<open>None\<close> when the property is undefined.
\<close>

record progress =
  ptype :: string
  percentage :: nat
  eta :: nat
  speed :: "nat option"

fun truthy_num :: "nat option \<Rightarrow> bool" where
  "truthy_num None = False"
| "truthy_num (Some n) = (n \<noteq> 0)"

text \<open>
  Modelled from the spec: the module \<^verbatim>\<open>shared/models/flash-state\<close> is not among the
  sources. FlashState is \<open>{isFlashing, isDownloading, lastCancelled, current}\<close>; the fields
  carry the names of the accessors the controller calls.
\<close>

record flash_state =
  isFlashing :: bool
  isDownloading :: bool
  wasLastFlashCancelled :: bool
  getFlashState :: progress

text \<open>
  The texts of \<^verbatim>\<open>shared/messages\<close>, which is not among the sources: one constructor
  per template the code calls, with the arguments it passes. Every text is taken to be
  non-empty, so that \<^verbatim>\<open>if (message)\<close> holds for each of them.
\<close>

datatype message =
    FlashComplete string drive
  | FlashFailure string drive
  | Validation
  | DriveUnplugged
  | InputOutput
  | NotEnoughSpaceInDrive
  | GenericFlashError
  | InvalidImage image
  | OpenImage string string
  | LooksLikeWindowsImage
  | MissingPartitionTable

text \<open>The object handed to \<^verbatim>\<open>unsetFlashingFlag\<close>; the controller passes \<^verbatim>\<open>{download: true}\<close>.\<close>

record flash_results =
  download :: bool

datatype payload = NoPayload | ImagePayload image | PreviousImage "image option"

text \<open>The calls to collaborators, as the trace records them.\<close>

datatype event =
    DriveScannerStop
  | DriveScannerStart
  | SetFlashingFlag
  | UnsetFlashingFlag flash_results
  | Request source string
  | SetProgressState progress
  | WriterFlash string drive
  | NotificationSend string message string
  | StateGo string
  | ConsoleError error
  | FlashErrorModalShow message
  | ExceptionReport error
  | ShowError string message
  | LogEvent string payload
  | LogException error
  | WarningDisplay string string message

record world =
  flashState :: flash_state
  selectionImage :: "image option"
  customImage :: "(string \<times> string) option"
  this_imagePath :: "source option"
  trace :: "event list"

datatype ('e, 'a) promise = Resolved 'a | Rejected 'e | Pending

text \<open>One progress event of the transfer, as \<^verbatim>\<open>request-progress\<close> reports it:
  \<open>percent_x100\<close> is the integer \<^verbatim>\<open>parseInt(state.percent * 100)\<close>.\<close>

record tick =
  percent_x100 :: nat
  time_remaining :: "nat option"
  tick_speed :: "nat option"

text \<open>A transfer: its progress events, and whether the stream emits \<^verbatim>\<open>end\<close>.\<close>

record transfer =
  ticks :: "tick list"
  ends :: bool

text \<open>
  What the writer does when \<^verbatim>\<open>ImageWriterService.flash\<close> is called: its promise
  resolves, rejects, or the call throws; \<open>w_effect\<close> is what it does to the flash state
  before its outcome is seen (the service is not among the sources).
\<close>

datatype writer_result = WResolves | WRejects error | WThrows error

record writer_run =
  w_result :: writer_result
  w_effect :: "flash_state \<Rightarrow> flash_state"

text \<open>
  The collaborators whose code is not among the sources, as parameters:
  \<^verbatim>\<open>supportedFormats\<close>, \<^verbatim>\<open>imageStream.getImageMetadata\<close>, the user's answer to
  \<^verbatim>\<open>WarningModalService.display\<close> (\<open>True\<close> is "Change"), the transfer \<^verbatim>\<open>request\<close>
  starts, \<^verbatim>\<open>ImageWriterService.flash\<close>, \<^verbatim>\<open>path.basename\<close>, the setting
  \<^verbatim>\<open>unmountOnSuccess\<close>, and what \<^verbatim>\<open>flashState.setFlashingFlag\<close> and
  \<^verbatim>\<open>flashState.unsetFlashingFlag\<close> do to the flash state.
\<close>

record env =
  isSupportedImage :: "string \<Rightarrow> bool"
  looksLikeWindowsImage :: "string \<Rightarrow> bool"
  getImageMetadata :: "string \<Rightarrow> error + image"
  display :: "message \<Rightarrow> bool"
  request :: "source \<Rightarrow> transfer"
  flash :: "string \<Rightarrow> drive \<Rightarrow> writer_run"
  basename :: "string \<Rightarrow> string"
  unmountOnSuccess :: bool
  flashState_setFlashingFlag :: "flash_state \<Rightarrow> flash_state"
  flashState_unsetFlashingFlag :: "flash_results \<Rightarrow> flash_state \<Rightarrow> flash_state"

section \<open>Collaborators\<close>

definition log :: "event \<Rightarrow> world \<Rightarrow> world" where
  "log e w = w\<lparr>trace := trace w @ [e]\<rparr>"

text \<open>
  Modelled from the spec: \<^verbatim>\<open>shared/models/selection-state\<close> is not among the sources.
  Selection State holds the accepted image, or none, and an optional custom image
  \<open>(url, name)\<close>; it exposes get, set and clear.
\<close>

definition setImage :: "image \<Rightarrow> world \<Rightarrow> world" where
  "setImage img w = w\<lparr>selectionImage := Some img\<rparr>"

definition removeImage :: "world \<Rightarrow> world" where
  "removeImage w = w\<lparr>selectionImage := None\<rparr>"

definition getImage :: "world \<Rightarrow> image option" where
  "getImage w = selectionImage w"

definition setCustomImage :: "string \<Rightarrow> string \<Rightarrow> world \<Rightarrow> world" where
  "setCustomImage url name w = w\<lparr>customImage := Some (url, name)\<rparr>"

text \<open>
  The two setters of \<^verbatim>\<open>flash-state\<close>: the call is recorded, and the flash state becomes
  what the setter, a parameter, makes of it.
\<close>

definition setFlashingFlag :: "env \<Rightarrow> world \<Rightarrow> world" where
  "setFlashingFlag E w =
     log SetFlashingFlag (w\<lparr>flashState := flashState_setFlashingFlag E (flashState w)\<rparr>)"

definition unsetFlashingFlag :: "env \<Rightarrow> flash_results \<Rightarrow> world \<Rightarrow> world" where
  "unsetFlashingFlag E results w =
     log (UnsetFlashingFlag results)
       (w\<lparr>flashState := flashState_unsetFlashingFlag E results (flashState w)\<rparr>)"

text \<open>
  Modelled from the spec: \<^verbatim>\<open>ImageWriterService.setProgressState\<close> is not among the
  sources; the record is published as the current progress of the flash state.
\<close>

definition setProgressState :: "progress \<Rightarrow> world \<Rightarrow> world" where
  "setProgressState state w =
     log (SetProgressState state) (w\<lparr>flashState := (flashState w)\<lparr>getFlashState := state\<rparr>\<rparr>)"

definition driveScanner_stop :: "world \<Rightarrow> world" where
  "driveScanner_stop w = log DriveScannerStop w"

definition driveScanner_start :: "world \<Rightarrow> world" where
  "driveScanner_start w = log DriveScannerStart w"

section \<open>The image selector service\<close>

definition removeImageSelection :: "world \<Rightarrow> world" where
  "removeImageSelection w = removeImage (log (LogEvent ''Remvoe image selection'' NoPayload) w)"

definition reselectImage :: "world \<Rightarrow> world" where
  "reselectImage w =
     removeImageSelection (log (LogEvent ''Reselect image'' (PreviousImage (getImage w))) w)"

text \<open>The body of the \<^verbatim>\<open>Bluebird.try\<close> callback up to the choice of the message.\<close>

definition risk_message :: "env \<Rightarrow> image \<Rightarrow> world \<Rightarrow> message option \<times> world" where
  "risk_message E img w =
     (if looksLikeWindowsImage E (path img)
      then (Some LooksLikeWindowsImage, log (LogEvent ''Possibly Windows image'' (ImagePayload img)) w)
      else if \<not> hasMBR img
      then (Some MissingPartitionTable, log (LogEvent ''Missing partition table'' (ImagePayload img)) w)
      else (None, w))"

text \<open>The rest of the callback: the value \<open>shouldChange\<close> the \<^verbatim>\<open>then\<close> handler receives.\<close>

definition confirm_risk :: "env \<Rightarrow> image \<Rightarrow> world \<Rightarrow> bool \<times> world" where
  "confirm_risk E img w =
     (case risk_message E img w of
        (Some message, w1) \<Rightarrow> (display E message, log (WarningDisplay ''Change'' ''Continue'' message) w1)
      | (None, w1) \<Rightarrow> (False, w1))"

text \<open>
  \<^verbatim>\<open>selectImage\<close>. The user error is created and shown, and the promise is rejected
  with the image itself (\<^verbatim>\<open>reject(image)\<close>, line 88); on the reselect
  branch the executor calls neither \<^verbatim>\<open>resolve\<close> nor \<^verbatim>\<open>reject\<close>. \<^verbatim>\<open>setImage\<close> is called
  before the two flags are normalised, and the promise resolves with the normalised
  image. No step of the chain throws in this model, so its
  \<^verbatim>\<open>catch(exceptionReporter.report)\<close> never runs.
\<close>

text \<open>
  The values the two services have at hand to reject a promise with: the image, the
  error of the metadata resolver, and a user error of \<^verbatim>\<open>errors.createUserError\<close> with its
  title and description.
\<close>

datatype rejection = RejImage image | RejError error | RejUserError string message

definition selectImage :: "env \<Rightarrow> image \<Rightarrow> world \<Rightarrow> (rejection, image) promise \<times> world" where
  "selectImage E img w =
     (if \<not> isSupportedImage E (path img)
      then (Rejected (RejImage img),
            log (LogEvent ''Invalid image'' (ImagePayload img))
              (log (ShowError ''Invalid image'' (InvalidImage img)) w))
      else
        (case confirm_risk E img w of
           (shouldChange, w1) \<Rightarrow>
             if shouldChange then (Pending, reselectImage w1)
             else
               (let w2 = setImage img w1;
                    image' = img\<lparr>logo := JBool (js_Boolean (logo img)),
                                   bmap := JBool (js_Boolean (bmap img))\<rparr>
                in (Resolved image', log (LogEvent ''Select image'' (ImagePayload image')) w2))))"

definition selectImageByPath ::
    "env \<Rightarrow> string \<Rightarrow> world \<Rightarrow> (rejection, image) promise \<times> world" where
  "selectImageByPath E imagePath w =
     (case getImageMetadata E imagePath of
        Inr imageMetadata \<Rightarrow>
          (case selectImage E imageMetadata w of
             (Resolved img, w1) \<Rightarrow> (Resolved img, w1)
           | (Rejected err, w1) \<Rightarrow> (Rejected err, w1)
           | (Pending, w1) \<Rightarrow> (Pending, w1))
      | Inl error \<Rightarrow>
          (Rejected (RejError error),
           log (LogException error)
             (log (ShowError ''Error opening image''
                     (OpenImage (basename E imagePath) (err_message error))) w)))"

definition selectCustomImage :: "string \<Rightarrow> world \<Rightarrow> world" where
  "selectCustomImage imgName w =
     (let w1 = (if imgName = ''drideOSZ''
                then setCustomImage ''https://s3.amazonaws.com/dride/latest.zip'' imgName w
                else w)
      in if imgName = ''drideOS''
         then setCustomImage ''https://s3.amazonaws.com/dride/latest.zip'' imgName w1
         else w1)"

section \<open>The flash controller\<close>

text \<open>Decimal digits of a number, as a template literal prints an integer.\<close>

fun show_nat :: "nat \<Rightarrow> string" where
  "show_nat n =
     (if n < 10 then [''0123456789'' ! n]
      else show_nat (n div 10) @ [''0123456789'' ! (n mod 10)])"

declare show_nat.simps [simp del]

text \<open>
  Modelled from the spec: \<^verbatim>\<open>shared/utils\<close> is not among the sources; a percentage
  ranges from 0 to 100.
\<close>

definition PERCENTAGE_MINIMUM :: nat where
  "PERCENTAGE_MINIMUM = 0"

definition PERCENTAGE_MAXIMUM :: nat where
  "PERCENTAGE_MAXIMUM = 100"

definition getProgressButtonLabel :: "env \<Rightarrow> flash_state \<Rightarrow> string" where
  "getProgressButtonLabel E fs =
     (let currentFlashState = getFlashState fs;
          isChecking = (ptype currentFlashState = ''check'');
          isDownloadingType = (ptype currentFlashState = ''download'')
      in if \<not> isDownloading fs then ''Flash!''
         else if \<not> isFlashing fs then ''Flash!''
         else if percentage currentFlashState = PERCENTAGE_MINIMUM
                 \<and> \<not> truthy_num (speed currentFlashState) then ''Starting...''
         else if percentage currentFlashState = PERCENTAGE_MAXIMUM then
           (if isChecking \<and> unmountOnSuccess E then ''Unmounting...'' else ''Finishing...'')
         else if isChecking then show_nat (percentage currentFlashState) @ ''% Validating...''
         else if isDownloadingType then show_nat (percentage currentFlashState) @ ''% Downloading...''
         else show_nat (percentage currentFlashState) @ ''%'')"

text \<open>The \<^verbatim>\<open>progress\<close> handler of the transfer: the state it hands to \<^verbatim>\<open>setProgressState\<close>.\<close>

definition on_progress :: "tick \<Rightarrow> progress" where
  "on_progress state =
     \<lparr>ptype = ''download'',
      percentage = percent_x100 state,
      eta = (case time_remaining state of Some r \<Rightarrow> (if r \<noteq> 0 then r else 99) | None \<Rightarrow> 99),
      speed = Some (case tick_speed state of Some v \<Rightarrow> (if v \<noteq> 0 then v else 0) | None \<Rightarrow> 0)\<rparr>"

text \<open>The download up to the last progress event: \<^verbatim>\<open>setFlashingFlag()\<close> is called, the
  transfer is piped to the staging file, and every progress event is published.\<close>

definition download_ticks :: "env \<Rightarrow> source \<Rightarrow> world \<Rightarrow> world" where
  "download_ticks E imagePath w =
     fold (\<lambda>state. setProgressState (on_progress state)) (ticks (request E imagePath))
       (log (Request imagePath ''os.zip'') (setFlashingFlag E w))"

text \<open>The \<^verbatim>\<open>end\<close> handler runs only when the stream ends; otherwise the promise stays pending.\<close>

definition run_download :: "env \<Rightarrow> source \<Rightarrow> world \<Rightarrow> (unit, string) promise \<times> world" where
  "run_download E imagePath w =
     (let w1 = download_ticks E imagePath w
      in if ends (request E imagePath)
         then (Resolved ''./os.zip'', unsetFlashingFlag E \<lparr>download = True\<rparr> w1)
         else (Pending, w1))"

text \<open>The executor never calls \<^verbatim>\<open>reject\<close>: the promise resolves or stays pending.\<close>

definition downloadImageIfNeeded ::
    "env \<Rightarrow> source \<Rightarrow> world \<Rightarrow> (unit, string) promise \<times> world" where
  "downloadImageIfNeeded E imagePath w =
     (let w0 = w\<lparr>this_imagePath := Some imagePath\<rparr>
      in case src_path imagePath of
           Some p \<Rightarrow> if p \<noteq> [] then (Resolved p, w0) else run_download E imagePath w0
         | None \<Rightarrow> run_download E imagePath w0)"

definition iconPath :: string where
  "iconPath = ''../../assets/icon.png''"

text \<open>The handler of the writer's resolution (lines 78 to 89).\<close>

definition on_flash_success :: "env \<Rightarrow> image \<Rightarrow> drive \<Rightarrow> world \<Rightarrow> world" where
  "on_flash_success E img drv w =
     (if \<not> wasLastFlashCancelled (flashState w)
      then log (StateGo ''success'')
             (log (NotificationSend ''Success!''
                     (FlashComplete (basename E (path img)) drv) iconPath) w)
      else w)"

text \<open>The handler of the writer's rejection (lines 90 to 114).\<close>

definition on_flash_error :: "env \<Rightarrow> image \<Rightarrow> drive \<Rightarrow> error \<Rightarrow> world \<Rightarrow> world" where
  "on_flash_error E img drv err w =
     (let w1 = log (ConsoleError err) w;
          w2 = log (NotificationSend ''Oops! Looks like the flash failed.''
                      (FlashFailure (basename E (path img)) drv) iconPath) w1
      in if err_code err = Some ''EVALIDATION'' then log (FlashErrorModalShow Validation) w2
         else if err_code err = Some ''EUNPLUGGED'' then log (FlashErrorModalShow DriveUnplugged) w2
         else if err_code err = Some ''EIO'' then log (FlashErrorModalShow InputOutput) w2
         else if err_code err = Some ''ENOSPC'' then log (FlashErrorModalShow NotEnoughSpaceInDrive) w2
         else log (ExceptionReport err) (log (FlashErrorModalShow GenericFlashError) w2))"

text \<open>
  How a call of \<^verbatim>\<open>flashImageToDrive\<close> ends: refused by the guard; waiting on a promise
  that is never settled; the rejection of \<^verbatim>\<open>selectImageByPath\<close>, which no handler
  receives; an exception of the call of the writer, thrown inside the \<^verbatim>\<open>then\<close> callback
  before \<^verbatim>\<open>catch\<close> and \<^verbatim>\<open>finally\<close> are attached; or the chain run to its \<^verbatim>\<open>finally\<close>.
\<close>

datatype session = NotStarted | Waiting | ValidationRejected rejection | WriterThrew error | Finished

text \<open>The callback that receives the selected image (lines 77 to 117).\<close>

definition flash_selected :: "env \<Rightarrow> image \<Rightarrow> drive \<Rightarrow> world \<Rightarrow> session \<times> world" where
  "flash_selected E img drv w =
     (let run = flash E (path img) drv;
          w1 = (log (WriterFlash (path img) drv) w)\<lparr>flashState := w_effect run (flashState w)\<rparr>
      in case w_result run of
           WThrows err \<Rightarrow> (WriterThrew err, w1)
         | WResolves \<Rightarrow> (Finished, driveScanner_start (on_flash_success E img drv w1))
         | WRejects err \<Rightarrow> (Finished, driveScanner_start (on_flash_error E img drv err w1)))"

text \<open>
  \<^verbatim>\<open>flashImageToDrive\<close>. Neither \<^verbatim>\<open>then\<close> of lines 74 and 76 has a rejection handler.
  The promise of \<^verbatim>\<open>downloadImageIfNeeded\<close> is never rejected, so its \<open>Rejected\<close> case
  is never taken.
\<close>

definition flashImageToDrive :: "env \<Rightarrow> source \<Rightarrow> drive \<Rightarrow> world \<Rightarrow> session \<times> world" where
  "flashImageToDrive E img drv w =
     (if isFlashing (flashState w) then (NotStarted, w)
      else
        (case downloadImageIfNeeded E img (driveScanner_stop w) of
           (Resolved retPath, w1) \<Rightarrow>
             (case selectImageByPath E retPath w1 of
                (Resolved res, w2) \<Rightarrow> flash_selected E res drv w2
              | (Rejected err, w2) \<Rightarrow> (ValidationRejected err, w2)
              | (Pending, w2) \<Rightarrow> (Waiting, w2))
         | (Rejected u, w1) \<Rightarrow> (Waiting, w1)
         | (Pending, w1) \<Rightarrow> (Waiting, w1)))"

section \<open>Reading the trace\<close>

text \<open>
  What the claims count in a trace: the notifications sent, the error messages shown by
  \<^verbatim>\<open>FlashErrorModalService\<close>, the errors given to \<^verbatim>\<open>exceptionReporter.report\<close>, the warnings
  displayed, and the calls of \<^verbatim>\<open>stop()\<close> and \<^verbatim>\<open>start()\<close> of the drive scanner.
  \<open>truthy_str\<close> is the test \<^verbatim>\<open>if (imagePath.path)\<close>.
\<close>

fun truthy_str :: "string option \<Rightarrow> bool" where
  "truthy_str None = False"
| "truthy_str (Some s) = (s \<noteq> [])"

fun is_notification :: "event \<Rightarrow> bool" where
  "is_notification (NotificationSend title body icon) = True"
| "is_notification e = False"

fun is_modal :: "event \<Rightarrow> bool" where
  "is_modal (FlashErrorModalShow m) = True"
| "is_modal e = False"

fun is_report :: "event \<Rightarrow> bool" where
  "is_report (ExceptionReport err) = True"
| "is_report e = False"

fun is_warning :: "event \<Rightarrow> bool" where
  "is_warning (WarningDisplay c r m) = True"
| "is_warning e = False"

text \<open>The calls that start a transfer or publish a progress record of the download phase.\<close>

fun is_download :: "event \<Rightarrow> bool" where
  "is_download (Request src file) = True"
| "is_download (SetProgressState state) = (ptype state = ''download'')"
| "is_download e = False"

text \<open>The calls only the image selector makes.\<close>

fun selector_event :: "event \<Rightarrow> bool" where
  "selector_event (ShowError title m) = True"
| "selector_event (LogEvent name p) = True"
| "selector_event (LogException err) = True"
| "selector_event (WarningDisplay c r m) = True"
| "selector_event e = False"

definition notifications :: "world \<Rightarrow> event list" where
  "notifications w = filter is_notification (trace w)"

definition modals :: "world \<Rightarrow> event list" where
  "modals w = filter is_modal (trace w)"

definition reports :: "world \<Rightarrow> event list" where
  "reports w = filter is_report (trace w)"

definition warnings :: "world \<Rightarrow> event list" where
  "warnings w = filter is_warning (trace w)"

definition downloads :: "world \<Rightarrow> event list" where
  "downloads w = filter is_download (trace w)"

definition stops :: "world \<Rightarrow> nat" where
  "stops w = length (filter (\<lambda>e. e = DriveScannerStop) (trace w))"

definition starts :: "world \<Rightarrow> nat" where
  "starts w = length (filter (\<lambda>e. e = DriveScannerStart) (trace w))"

section \<open>Concrete sessions\<close>

text \<open>
  The inputs the theorems are evaluated at: an idle flash state with nothing selected, a
  drive, the formats \<^verbatim>\<open>.img\<close> and \<^verbatim>\<open>.zip\<close>, a file whose metadata cannot be read
  (\<^verbatim>\<open>broken.img\<close>), one that looks like a Windows image (\<^verbatim>\<open>win10.img\<close>), one without a
  partition table (\<^verbatim>\<open>nombr.img\<close>), a transfer of one progress event that ends, a writer
  given by its outcome and by the cancelled mark it leaves, and setters that raise and
  clear \<open>isFlashing\<close>.
\<close>

definition demo_drive :: drive where
  "demo_drive = \<lparr>device = ''/dev/disk2'', description = ''Foo'', drive_size = 99999,
                  mountpoint = ''/mnt/foo'', system = False\<rparr>"

definition idle_world :: world where
  "idle_world =
     \<lparr>flashState = \<lparr>isFlashing = False, isDownloading = False, wasLastFlashCancelled = False,
                     getFlashState = \<lparr>ptype = [], percentage = 0, eta = 0, speed = Some 0\<rparr>\<rparr>,
      selectionImage = None, customImage = None, this_imagePath = None, trace = []\<rparr>"

definition demo_image :: "string \<Rightarrow> image" where
  "demo_image p = \<lparr>path = p, imgsize = 1000, hasMBR = (p \<noteq> ''nombr.img''),
                    logo = Undefined, bmap = Undefined\<rparr>"

definition demo_env :: "writer_run \<Rightarrow> bool \<Rightarrow> env" where
  "demo_env run answer =
     \<lparr>isSupportedImage = (\<lambda>p. take 4 (rev p) = rev ''.img'' \<or> take 4 (rev p) = rev ''.zip''),
      looksLikeWindowsImage = (\<lambda>p. p = ''win10.img''),
      getImageMetadata = (\<lambda>p. if p = ''broken.img''
                               then Inl \<lparr>err_code = None, err_message = ''unreadable''\<rparr>
                               else Inr (demo_image p)),
      display = (\<lambda>m. answer),
      request = (\<lambda>s. \<lparr>ticks = [\<lparr>percent_x100 = 45, time_remaining = Some 7, tick_speed = None\<rparr>],
                       ends = True\<rparr>),
      flash = (\<lambda>p d. run),
      basename = (\<lambda>p. p),
      unmountOnSuccess = True,
      flashState_setFlashingFlag = (\<lambda>fs. fs\<lparr>isFlashing := True\<rparr>),
      flashState_unsetFlashingFlag = (\<lambda>results fs. fs\<lparr>isFlashing := False\<rparr>)\<rparr>"

definition demo_error :: "string option \<Rightarrow> error" where
  "demo_error c = \<lparr>err_code = c, err_message = ''failed''\<rparr>"

definition local_src :: "string \<Rightarrow> source" where
  "local_src p = \<lparr>src_path = Some p, src_url = []\<rparr>"

definition remote_src :: source where
  "remote_src = \<lparr>src_path = None, src_url = ''https://s3.amazonaws.com/dride/latest.zip''\<rparr>"

definition writer :: "writer_result \<Rightarrow> bool \<Rightarrow> writer_run" where
  "writer r c = \<lparr>w_result = r, w_effect = (\<lambda>fs. fs\<lparr>wasLastFlashCancelled := c\<rparr>)\<rparr>"

section \<open>Facts about the collaborators\<close>

lemma trace_log [simp]: "trace (log e w) = trace w @ [e]"
  by (simp add: log_def)

lemma flashState_log [simp]: "flashState (log e w) = flashState w"
  by (simp add: log_def)

lemma selectionImage_log [simp]: "selectionImage (log e w) = selectionImage w"
  by (simp add: log_def)

lemma customImage_log [simp]: "customImage (log e w) = customImage w"
  by (simp add: log_def)

lemmas selector_defs =
  selectImageByPath_def selectImage_def confirm_risk_def risk_message_def reselectImage_def
  removeImageSelection_def removeImage_def setImage_def getImage_def Let_def

lemma flashState_selectImage: "flashState (snd (selectImage E img w)) = flashState w"
  by (simp add: selector_defs split: prod.splits option.splits)

lemma flashState_selectImageByPath: "flashState (snd (selectImageByPath E p w)) = flashState w"
  by (simp add: selector_defs split: sum.splits prod.splits option.splits promise.splits)

lemma filter_selectImageByPath:
  assumes "\<And>e. selector_event e \<Longrightarrow> \<not> P e"
  shows "filter P (trace (snd (selectImageByPath E p w))) = filter P (trace w)"
  using assms
  by (simp add: selector_defs split: sum.splits prod.splits option.splits promise.splits)

lemmas demo_defs = demo_env_def local_src_def idle_world_def writer_def demo_drive_def demo_image_def
  demo_error_def remote_src_def

section \<open>The image selector: the claims\<close>

text \<open>
  C5, as the code has it. The promise is rejected with the candidate image, not with
  the "Invalid image" error, which is only shown.
\<close>

theorem selectImage_unsupported_counterexample:
  "\<not> isSupportedImage (demo_env (writer WResolves False) False) (path (demo_image ''notes.txt''))
   \<and> fst (selectImage (demo_env (writer WResolves False) False) (demo_image ''notes.txt'') idle_world)
       = Rejected (RejImage (demo_image ''notes.txt''))
   \<and> fst (selectImage (demo_env (writer WResolves False) False) (demo_image ''notes.txt'') idle_world)
       \<noteq> Rejected (RejUserError ''Invalid image'' (InvalidImage (demo_image ''notes.txt'')))"
  by (simp add: demo_defs selectImage_def)

text \<open>
  C5, amended. An image whose path is not of a supported format: \<^verbatim>\<open>selectImage\<close> shows
  the "Invalid image" error to the user, logs the "Invalid image" event, in this order
  and with no other call, and rejects its promise with the candidate image itself;
  Selection State is unchanged.
\<close>

theorem selectImage_unsupported:
  assumes "\<not> isSupportedImage E (path img)"
  shows "fst (selectImage E img w) = Rejected (RejImage img)
       \<and> trace (snd (selectImage E img w)) =
           trace w @ [ShowError ''Invalid image'' (InvalidImage img),
                      LogEvent ''Invalid image'' (ImagePayload img)]
       \<and> selectionImage (snd (selectImage E img w)) = selectionImage w
       \<and> customImage (snd (selectImage E img w)) = customImage w"
  using assms by (simp add: selectImage_def)

theorem selectImage_unsupported_witness:
  "\<not> isSupportedImage (demo_env (writer WResolves False) False) (path (demo_image ''notes.txt''))
   \<and> fst (selectImage (demo_env (writer WResolves False) False) (demo_image ''notes.txt'') idle_world)
       = Rejected (RejImage (demo_image ''notes.txt''))
   \<and> trace (snd (selectImage (demo_env (writer WResolves False) False) (demo_image ''notes.txt'') idle_world))
       = [ShowError ''Invalid image'' (InvalidImage (demo_image ''notes.txt'')),
          LogEvent ''Invalid image'' (ImagePayload (demo_image ''notes.txt''))]
   \<and> selectionImage (snd (selectImage (demo_env (writer WResolves False) False) (demo_image ''notes.txt'') idle_world))
       = None"
  using selectImage_unsupported [of "demo_env (writer WResolves False) False" "demo_image ''notes.txt''" idle_world]
  by (simp add: demo_defs demo_image_def)

text \<open>
  C6. For a supported image at most one warning is displayed: the Windows warning when
  the path matches the Windows heuristic, whatever \<open>hasMBR\<close> is; the missing partition
  table warning when it does not match and \<open>hasMBR\<close> is false; none otherwise.
\<close>

theorem selectImage_one_warning:
  assumes "isSupportedImage E (path img)"
  shows "warnings (snd (selectImage E img w)) =
           warnings w @
           (if looksLikeWindowsImage E (path img)
            then [WarningDisplay ''Change'' ''Continue'' LooksLikeWindowsImage]
            else if \<not> hasMBR img
            then [WarningDisplay ''Change'' ''Continue'' MissingPartitionTable]
            else [])"
  using assms by (simp add: warnings_def selector_defs split: prod.splits)

theorem selectImage_one_warning_witness:
  "isSupportedImage (demo_env (writer WResolves False) False) (path ((demo_image ''win10.img'')\<lparr>hasMBR := False\<rparr>))
   \<and> isSupportedImage (demo_env (writer WResolves False) False) (path (demo_image ''nombr.img''))
   \<and> warnings (snd (selectImage (demo_env (writer WResolves False) False)
                       ((demo_image ''win10.img'')\<lparr>hasMBR := False\<rparr>) idle_world))
       = [WarningDisplay ''Change'' ''Continue'' LooksLikeWindowsImage]
   \<and> warnings (snd (selectImage (demo_env (writer WResolves False) False)
                       (demo_image ''nombr.img'') idle_world))
       = [WarningDisplay ''Change'' ''Continue'' MissingPartitionTable]"
  using selectImage_one_warning [of "demo_env (writer WResolves False) False"
          "(demo_image ''win10.img'')\<lparr>hasMBR := False\<rparr>" idle_world]
        selectImage_one_warning [of "demo_env (writer WResolves False) False"
          "demo_image ''nombr.img''" idle_world]
  by (simp add: demo_defs demo_image_def warnings_def)

text \<open>
  C7, as the code has it. The user answers "Change" to the warning: the promise of
  \<^verbatim>\<open>selectImage\<close> is settled by no one, since \<^verbatim>\<open>reselectImage\<close> clears the selection
  and selects nothing again.
\<close>

theorem selectImage_go_back_counterexample:
  "display (demo_env (writer WResolves False) True) LooksLikeWindowsImage
   \<and> warnings (snd (selectImage (demo_env (writer WResolves False) True) (demo_image ''win10.img'')
                       (idle_world\<lparr>selectionImage := Some (demo_image ''old.img'')\<rparr>)))
       = [WarningDisplay ''Change'' ''Continue'' LooksLikeWindowsImage]
   \<and> fst (selectImage (demo_env (writer WResolves False) True) (demo_image ''win10.img'')
            (idle_world\<lparr>selectionImage := Some (demo_image ''old.img'')\<rparr>)) = Pending"
  by (simp add: demo_defs demo_image_def warnings_def selector_defs)

text \<open>
  C7, amended. When a warning is displayed and the user answers "Change", the selection
  is cleared and the candidate is not committed: after the warning the only calls are the
  two events of \<^verbatim>\<open>reselectImage\<close> and \<^verbatim>\<open>removeImageSelection\<close>.
\<close>

theorem selectImage_go_back:
  assumes "isSupportedImage E (path img)"
      and "fst (risk_message E img w) = Some m"
      and "display E m"
  shows "selectionImage (snd (selectImage E img w)) = None
       \<and> customImage (snd (selectImage E img w)) = customImage w
       \<and> trace (snd (selectImage E img w)) =
           trace (snd (risk_message E img w)) @
           [WarningDisplay ''Change'' ''Continue'' m,
            LogEvent ''Reselect image'' (PreviousImage (selectionImage w)),
            LogEvent ''Remvoe image selection'' NoPayload]"
  using assms
  by (auto simp: selectImage_def confirm_risk_def reselectImage_def removeImageSelection_def
        removeImage_def getImage_def risk_message_def split: prod.splits option.splits if_splits)

theorem selectImage_go_back_witness:
  "isSupportedImage (demo_env (writer WResolves False) True) (path (demo_image ''win10.img''))
   \<and> fst (risk_message (demo_env (writer WResolves False) True) (demo_image ''win10.img'')
            (idle_world\<lparr>selectionImage := Some (demo_image ''old.img'')\<rparr>)) = Some LooksLikeWindowsImage
   \<and> display (demo_env (writer WResolves False) True) LooksLikeWindowsImage
   \<and> selectionImage (snd (selectImage (demo_env (writer WResolves False) True) (demo_image ''win10.img'')
            (idle_world\<lparr>selectionImage := Some (demo_image ''old.img'')\<rparr>))) = None
   \<and> trace (snd (selectImage (demo_env (writer WResolves False) True) (demo_image ''win10.img'')
            (idle_world\<lparr>selectionImage := Some (demo_image ''old.img'')\<rparr>))) =
       [LogEvent ''Possibly Windows image'' (ImagePayload (demo_image ''win10.img'')),
        WarningDisplay ''Change'' ''Continue'' LooksLikeWindowsImage,
        LogEvent ''Reselect image'' (PreviousImage (Some (demo_image ''old.img''))),
        LogEvent ''Remvoe image selection'' NoPayload]"
  using selectImage_go_back [of "demo_env (writer WResolves False) True" "demo_image ''win10.img''"
          "idle_world\<lparr>selectionImage := Some (demo_image ''old.img'')\<rparr>" LooksLikeWindowsImage]
  by (simp add: demo_defs demo_image_def risk_message_def)

text \<open>
  C10. \<^verbatim>\<open>selectCustomImage\<close> sets the custom image to the fixed address and the given
  name when the name is \<^verbatim>\<open>drideOSZ\<close> or \<^verbatim>\<open>drideOS\<close>, and changes nothing for any other name.
\<close>

theorem selectCustomImage_names:
  "selectCustomImage imgName w =
     (if imgName = ''drideOSZ'' \<or> imgName = ''drideOS''
      then w\<lparr>customImage := Some (''https://s3.amazonaws.com/dride/latest.zip'', imgName)\<rparr>
      else w)"
  by (simp add: selectCustomImage_def setCustomImage_def)

section \<open>Facts about the flash controller\<close>

lemma trace_setProgressState_fold:
  assumes "\<And>st. \<not> P (SetProgressState st)"
  shows "filter P (trace (fold (\<lambda>state. setProgressState (f state)) ts w)) = filter P (trace w)"
  using assms by (induction ts arbitrary: w) (simp_all add: setProgressState_def)

lemma trace_setProgressState_all:
  "trace (fold (\<lambda>state. setProgressState (f state)) ts w) =
     trace w @ map (\<lambda>state. SetProgressState (f state)) ts"
  by (induction ts arbitrary: w) (simp_all add: setProgressState_def)

lemma flashState_setProgressState_fold:
  "flashState (fold (\<lambda>state. setProgressState (f state)) ts w) =
     fold (\<lambda>state fs. fs\<lparr>getFlashState := f state\<rparr>) ts (flashState w)"
  by (induction ts arbitrary: w) (simp_all add: setProgressState_def)

lemma trace_download_ticks:
  "trace (download_ticks E src w) =
     trace w @ [SetFlashingFlag, Request src ''os.zip''] @
     map (\<lambda>state. SetProgressState (on_progress state)) (ticks (request E src))"
  by (simp add: download_ticks_def trace_setProgressState_all setFlashingFlag_def)

lemma flashState_download_ticks:
  "flashState (download_ticks E src w) =
     fold (\<lambda>state fs. fs\<lparr>getFlashState := on_progress state\<rparr>) (ticks (request E src))
       (flashState_setFlashingFlag E (flashState w))"
  by (simp add: download_ticks_def flashState_setProgressState_fold setFlashingFlag_def)

lemma filter_download_ticks:
  assumes "\<And>s f. \<not> P (Request s f)" and "\<And>st. \<not> P (SetProgressState st)"
      and "\<not> P SetFlashingFlag"
  shows "filter P (trace (download_ticks E src w)) = filter P (trace w)"
  using assms by (simp add: download_ticks_def trace_setProgressState_fold setFlashingFlag_def)

lemma downloadImageIfNeeded_never_rejects: "fst (downloadImageIfNeeded E src w) \<noteq> Rejected u"
  by (simp add: downloadImageIfNeeded_def run_download_def Let_def split: option.splits)

lemma downloadImageIfNeeded_local:
  assumes "src_path src = Some p" and "p \<noteq> []"
  shows "downloadImageIfNeeded E src w = (Resolved p, w\<lparr>this_imagePath := Some src\<rparr>)"
  using assms by (simp add: downloadImageIfNeeded_def)

lemma downloadImageIfNeeded_remote:
  assumes "\<not> truthy_str (src_path src)"
  shows "downloadImageIfNeeded E src w = run_download E src (w\<lparr>this_imagePath := Some src\<rparr>)"
  using assms by (cases "src_path src") (simp_all add: downloadImageIfNeeded_def)

lemma filter_downloadImageIfNeeded:
  assumes "\<And>s f. \<not> P (Request s f)" and "\<And>st. \<not> P (SetProgressState st)"
      and "\<not> P SetFlashingFlag" and "\<And>r. \<not> P (UnsetFlashingFlag r)"
  shows "filter P (trace (snd (downloadImageIfNeeded E src w))) = filter P (trace w)"
  using assms
  by (simp add: downloadImageIfNeeded_def run_download_def Let_def unsetFlashingFlag_def
        filter_download_ticks split: option.splits)

lemma flashImageToDrive_selected:
  assumes "\<not> isFlashing (flashState w)"
      and "downloadImageIfNeeded E src (driveScanner_stop w) = (Resolved retPath, w1)"
      and "selectImageByPath E retPath w1 = (Resolved res, w2)"
  shows "flashImageToDrive E src drv w = flash_selected E res drv w2"
  using assms by (simp add: flashImageToDrive_def)

lemma filter_before_writer:
  assumes "downloadImageIfNeeded E src (driveScanner_stop w) = (Resolved retPath, w1)"
      and "selectImageByPath E retPath w1 = (q, w2)"
      and "\<And>e. selector_event e \<Longrightarrow> \<not> P e"
      and "\<And>s f. \<not> P (Request s f)" and "\<And>st. \<not> P (SetProgressState st)"
      and "\<not> P SetFlashingFlag" and "\<And>r. \<not> P (UnsetFlashingFlag r)"
  shows "filter P (trace w2) = filter P (trace w) @ filter P [DriveScannerStop]"
proof -
  have "filter P (trace w2) = filter P (trace (snd (selectImageByPath E retPath w1)))"
    using assms(2) by simp
  also have "\<dots> = filter P (trace w1)"
    using assms(3) by (rule filter_selectImageByPath)
  also have "\<dots> = filter P (trace (snd (downloadImageIfNeeded E src (driveScanner_stop w))))"
    using assms(1) by simp
  also have "\<dots> = filter P (trace (driveScanner_stop w))"
    using assms(4-7) by (rule filter_downloadImageIfNeeded)
  finally show ?thesis by (simp add: driveScanner_stop_def)
qed

lemma trace_flash_selected_resolves:
  assumes "w_result (flash E (path img) drv) = WResolves"
  shows "trace (snd (flash_selected E img drv w)) =
           trace w @ [WriterFlash (path img) drv] @
           (if wasLastFlashCancelled (w_effect (flash E (path img) drv) (flashState w)) then []
            else [NotificationSend ''Success!'' (FlashComplete (basename E (path img)) drv) iconPath,
                  StateGo ''success'']) @
           [DriveScannerStart]"
  using assms
  by (simp add: flash_selected_def Let_def on_flash_success_def driveScanner_start_def)

lemma trace_flash_selected_rejects:
  assumes "w_result (flash E (path img) drv) = WRejects err"
  shows "trace (snd (flash_selected E img drv w)) =
           trace w @
           [WriterFlash (path img) drv, ConsoleError err,
            NotificationSend ''Oops! Looks like the flash failed.''
              (FlashFailure (basename E (path img)) drv) iconPath] @
           (if err_code err = Some ''EVALIDATION'' then [FlashErrorModalShow Validation]
            else if err_code err = Some ''EUNPLUGGED'' then [FlashErrorModalShow DriveUnplugged]
            else if err_code err = Some ''EIO'' then [FlashErrorModalShow InputOutput]
            else if err_code err = Some ''ENOSPC'' then [FlashErrorModalShow NotEnoughSpaceInDrive]
            else [FlashErrorModalShow GenericFlashError, ExceptionReport err]) @
           [DriveScannerStart]"
  using assms
  by (simp add: flash_selected_def Let_def on_flash_error_def driveScanner_start_def)

lemma trace_flash_selected_throws:
  assumes "w_result (flash E (path img) drv) = WThrows err"
  shows "trace (snd (flash_selected E img drv w)) = trace w @ [WriterFlash (path img) drv]"
  using assms by (simp add: flash_selected_def Let_def)

lemma flashState_flash_selected:
  "flashState (snd (flash_selected E img drv w)) = w_effect (flash E (path img) drv) (flashState w)"
  by (simp add: flash_selected_def Let_def on_flash_error_def on_flash_success_def
        driveScanner_start_def split: writer_result.splits)

lemma downloads_flash_selected: "downloads (snd (flash_selected E img drv w)) = downloads w"
  by (cases "w_result (flash E (path img) drv)")
     (simp_all add: downloads_def trace_flash_selected_resolves trace_flash_selected_rejects
        trace_flash_selected_throws)

lemma fst_flash_selected:
  "fst (flash_selected E img drv w) =
     (case w_result (flash E (path img) drv) of
        WThrows err \<Rightarrow> WriterThrew err | WResolves \<Rightarrow> Finished | WRejects err \<Rightarrow> Finished)"
  by (simp add: flash_selected_def Let_def split: writer_result.splits)

lemma selector_event_other:
  assumes "selector_event e"
  shows "\<not> is_modal e" and "\<not> is_report e" and "\<not> is_notification e" and "\<not> is_download e"
    and "e \<noteq> DriveScannerStart" and "e \<noteq> DriveScannerStop"
  using assms by (cases e; simp)+

lemma before_writer:
  assumes "downloadImageIfNeeded E src (driveScanner_stop w) = (Resolved retPath, w1)"
      and "selectImageByPath E retPath w1 = (q, w2)"
  shows "modals w2 = modals w" and "reports w2 = reports w" and "notifications w2 = notifications w"
    and "starts w2 = starts w" and "stops w2 = stops w + 1"
  unfolding modals_def reports_def notifications_def starts_def stops_def
  using filter_before_writer [OF assms, of is_modal]
        filter_before_writer [OF assms, of is_report]
        filter_before_writer [OF assms, of is_notification]
        filter_before_writer [OF assms, of "\<lambda>e. e = DriveScannerStart"]
        filter_before_writer [OF assms, of "\<lambda>e. e = DriveScannerStop"]
  by (simp_all add: selector_event_other)

lemmas session_defs =
  flashImageToDrive_def downloadImageIfNeeded_def run_download_def download_ticks_def on_progress_def
  setProgressState_def setFlashingFlag_def unsetFlashingFlag_def driveScanner_stop_def
  driveScanner_start_def flash_selected_def on_flash_success_def on_flash_error_def iconPath_def
  selector_defs

section \<open>The flash controller: the claims\<close>

text \<open>
  C9. A candidate with a local path: \<^verbatim>\<open>downloadImageIfNeeded\<close> resolves at once with that
  path and changes nothing but the controller's own \<^verbatim>\<open>imagePath\<close> field (no flag, no
  progress record, no transfer to the staging file), and the whole session makes no
  call that starts a transfer or publishes a progress record of the download phase.
\<close>

theorem local_image_skips_download:
  assumes "src_path src = Some p" and "p \<noteq> []"
  shows "downloadImageIfNeeded E src w = (Resolved p, w\<lparr>this_imagePath := Some src\<rparr>)
       \<and> downloads (snd (flashImageToDrive E src drv w)) = downloads w"
proof -
  have local: "downloadImageIfNeeded E src w' = (Resolved p, w'\<lparr>this_imagePath := Some src\<rparr>)" for w'
    using assms by (rule downloadImageIfNeeded_local)
  have sel: "downloads (snd (selectImageByPath E p w')) = downloads w'" for w'
    unfolding downloads_def by (rule filter_selectImageByPath) (auto elim: selector_event.elims)
  have "downloads (snd (flashImageToDrive E src drv w)) = downloads w"
  proof (cases "isFlashing (flashState w)")
    case True
    then show ?thesis by (simp add: flashImageToDrive_def)
  next
    case False
    let ?w1 = "(driveScanner_stop w)\<lparr>this_imagePath := Some src\<rparr>"
    have w1: "downloads ?w1 = downloads w"
      by (simp add: downloads_def driveScanner_stop_def)
    show ?thesis
    proof (cases "selectImageByPath E p ?w1")
      case (Pair r w2)
      have w2: "downloads w2 = downloads w"
        using sel [of ?w1] Pair w1 by simp
      show ?thesis
        using False Pair w2 local [of "driveScanner_stop w"]
        by (cases r) (simp_all add: flashImageToDrive_def downloads_flash_selected)
    qed
  qed
  with local show ?thesis by simp
qed

theorem local_image_skips_download_witness:
  "src_path (local_src ''rpi.img'') = Some ''rpi.img'' \<and> ''rpi.img'' \<noteq> []
   \<and> downloadImageIfNeeded (demo_env (writer WResolves False) False) (local_src ''rpi.img'') idle_world
       = (Resolved ''rpi.img'', idle_world\<lparr>this_imagePath := Some (local_src ''rpi.img'')\<rparr>)
   \<and> downloads (snd (flashImageToDrive (demo_env (writer WResolves False) False)
                         (local_src ''rpi.img'') demo_drive idle_world)) = []"
  using local_image_skips_download [of "local_src ''rpi.img''" "''rpi.img''"
          "demo_env (writer WResolves False) False" idle_world demo_drive]
  by (simp add: local_src_def idle_world_def downloads_def)

text \<open>
  C4. A session whose writer rejects: exactly one error message is shown, chosen by the
  error's code. Code \<^verbatim>\<open>ENOSPC\<close> shows the not-enough-space message and reports nothing;
  a code that is none of \<^verbatim>\<open>EVALIDATION\<close>, \<^verbatim>\<open>EUNPLUGGED\<close>, \<^verbatim>\<open>EIO\<close>, \<^verbatim>\<open>ENOSPC\<close> shows the
  generic message and reports the error once; the session reports an error only then.
\<close>

theorem writer_rejection_classified:
  assumes "\<not> isFlashing (flashState w)"
      and "downloadImageIfNeeded E src (driveScanner_stop w) = (Resolved retPath, w1)"
      and "selectImageByPath E retPath w1 = (Resolved res, w2)"
      and "w_result (flash E (path res) drv) = WRejects err"
  shows "(err_code err = Some ''ENOSPC'' \<longrightarrow>
            modals (snd (flashImageToDrive E src drv w)) =
              modals w @ [FlashErrorModalShow NotEnoughSpaceInDrive]
          \<and> reports (snd (flashImageToDrive E src drv w)) = reports w)
       \<and> (err_code err \<notin> {Some ''EVALIDATION'', Some ''EUNPLUGGED'', Some ''EIO'', Some ''ENOSPC''} \<longrightarrow>
            modals (snd (flashImageToDrive E src drv w)) =
              modals w @ [FlashErrorModalShow GenericFlashError]
          \<and> reports (snd (flashImageToDrive E src drv w)) = reports w @ [ExceptionReport err])
       \<and> length (modals (snd (flashImageToDrive E src drv w))) = length (modals w) + 1
       \<and> (reports (snd (flashImageToDrive E src drv w)) \<noteq> reports w \<longleftrightarrow>
            err_code err \<notin> {Some ''EVALIDATION'', Some ''EUNPLUGGED'', Some ''EIO'', Some ''ENOSPC''})"
proof -
  have run: "flashImageToDrive E src drv w = flash_selected E res drv w2"
    using assms(1-3) by (rule flashImageToDrive_selected)
  note before = before_writer [OF assms(2,3)]
  show ?thesis
    using before(1,2)
    unfolding run modals_def reports_def trace_flash_selected_rejects [OF assms(4)]
    by simp
qed

theorem writer_rejection_classified_witness:
  "\<not> isFlashing (flashState idle_world)
   \<and> w_result (flash (demo_env (writer (WRejects (demo_error (Some ''ENOSPC''))) False) False)
                 ''rpi.img'' demo_drive) = WRejects (demo_error (Some ''ENOSPC''))
   \<and> modals (snd (flashImageToDrive (demo_env (writer (WRejects (demo_error (Some ''ENOSPC''))) False) False)
                     (local_src ''rpi.img'') demo_drive idle_world))
       = [FlashErrorModalShow NotEnoughSpaceInDrive]
   \<and> reports (snd (flashImageToDrive (demo_env (writer (WRejects (demo_error (Some ''ENOSPC''))) False) False)
                      (local_src ''rpi.img'') demo_drive idle_world)) = []
   \<and> modals (snd (flashImageToDrive (demo_env (writer (WRejects (demo_error (Some ''EWEIRD''))) False) False)
                     (local_src ''rpi.img'') demo_drive idle_world))
       = [FlashErrorModalShow GenericFlashError]
   \<and> reports (snd (flashImageToDrive (demo_env (writer (WRejects (demo_error (Some ''EWEIRD''))) False) False)
                      (local_src ''rpi.img'') demo_drive idle_world))
       = [ExceptionReport (demo_error (Some ''EWEIRD''))]"
  using writer_rejection_classified
          [of idle_world "demo_env (writer (WRejects (demo_error (Some ''ENOSPC''))) False) False"
              "local_src ''rpi.img''" "''rpi.img''"
              "(driveScanner_stop idle_world)\<lparr>this_imagePath := Some (local_src ''rpi.img'')\<rparr>"
              "(demo_image ''rpi.img'')\<lparr>logo := JBool False, bmap := JBool False\<rparr>"
              "snd (selectImageByPath (demo_env (writer (WRejects (demo_error (Some ''ENOSPC''))) False) False)
                     ''rpi.img''
                     ((driveScanner_stop idle_world)\<lparr>this_imagePath := Some (local_src ''rpi.img'')\<rparr>))"
              demo_drive "demo_error (Some ''ENOSPC'')"]
        writer_rejection_classified
          [of idle_world "demo_env (writer (WRejects (demo_error (Some ''EWEIRD''))) False) False"
              "local_src ''rpi.img''" "''rpi.img''"
              "(driveScanner_stop idle_world)\<lparr>this_imagePath := Some (local_src ''rpi.img'')\<rparr>"
              "(demo_image ''rpi.img'')\<lparr>logo := JBool False, bmap := JBool False\<rparr>"
              "snd (selectImageByPath (demo_env (writer (WRejects (demo_error (Some ''EWEIRD''))) False) False)
                     ''rpi.img''
                     ((driveScanner_stop idle_world)\<lparr>this_imagePath := Some (local_src ''rpi.img'')\<rparr>))"
              demo_drive "demo_error (Some ''EWEIRD'')"]
  by (simp add: demo_defs session_defs modals_def reports_def)

text \<open>
  C3, as the code has it. The writer rejects while the session is marked cancelled: the
  failure notification is sent all the same.
\<close>

theorem cancelled_session_counterexample:
  "wasLastFlashCancelled
     (flashState (snd (flashImageToDrive
        (demo_env (writer (WRejects (demo_error (Some ''EIO''))) True) False)
        (local_src ''rpi.img'') demo_drive idle_world)))
   \<and> notifications (snd (flashImageToDrive
        (demo_env (writer (WRejects (demo_error (Some ''EIO''))) True) False)
        (local_src ''rpi.img'') demo_drive idle_world))
       = [NotificationSend ''Oops! Looks like the flash failed.''
            (FlashFailure ''rpi.img'' demo_drive) ''../../assets/icon.png'']"
  by (simp add: demo_defs session_defs notifications_def)

text \<open>
  C3, amended. A session that reaches the writer and is marked cancelled when the writer
  settles: if the writer resolves, the session sends no notification at all; if the
  writer rejects, the failure notification is sent, the mark is not looked at. Either
  way the session ends with one \<^verbatim>\<open>stop()\<close> and one \<^verbatim>\<open>start()\<close> of the drive scanner.
\<close>

theorem cancelled_session:
  assumes "\<not> isFlashing (flashState w)"
      and "downloadImageIfNeeded E src (driveScanner_stop w) = (Resolved retPath, w1)"
      and "selectImageByPath E retPath w1 = (Resolved res, w2)"
      and "wasLastFlashCancelled (w_effect (flash E (path res) drv) (flashState w2))"
  shows "(w_result (flash E (path res) drv) = WResolves \<longrightarrow>
            fst (flashImageToDrive E src drv w) = Finished
          \<and> notifications (snd (flashImageToDrive E src drv w)) = notifications w
          \<and> stops (snd (flashImageToDrive E src drv w)) = stops w + 1
          \<and> starts (snd (flashImageToDrive E src drv w)) = starts w + 1)
       \<and> (w_result (flash E (path res) drv) = WRejects err \<longrightarrow>
            fst (flashImageToDrive E src drv w) = Finished
          \<and> notifications (snd (flashImageToDrive E src drv w)) =
              notifications w @
              [NotificationSend ''Oops! Looks like the flash failed.''
                 (FlashFailure (basename E (path res)) drv) iconPath]
          \<and> stops (snd (flashImageToDrive E src drv w)) = stops w + 1
          \<and> starts (snd (flashImageToDrive E src drv w)) = starts w + 1)"
proof -
  have run: "flashImageToDrive E src drv w = flash_selected E res drv w2"
    using assms(1-3) by (rule flashImageToDrive_selected)
  note before = before_writer [OF assms(2,3)]
  have resolves: "?thesis" if "w_result (flash E (path res) drv) = WResolves"
    using that assms(4) before(3,4,5)
    unfolding run notifications_def stops_def starts_def
    by (simp add: fst_flash_selected trace_flash_selected_resolves)
  have rejects: "?thesis" if "w_result (flash E (path res) drv) = WRejects err"
    using that before(3,4,5)
    unfolding run notifications_def stops_def starts_def
    by (simp add: fst_flash_selected trace_flash_selected_rejects)
  have throws: "?thesis" if "w_result (flash E (path res) drv) = WThrows e" for e
    using that by simp
  have other: "?thesis" if "w_result (flash E (path res) drv) = WRejects e" "e \<noteq> err" for e
    using that by simp
  show ?thesis
    using resolves rejects throws other by (cases "w_result (flash E (path res) drv)") blast+
qed

theorem cancelled_session_witness:
  "\<not> isFlashing (flashState idle_world)
   \<and> wasLastFlashCancelled (w_effect (flash (demo_env (writer WResolves True) False) ''rpi.img'' demo_drive)
        (flashState idle_world))
   \<and> fst (flashImageToDrive (demo_env (writer WResolves True) False)
            (local_src ''rpi.img'') demo_drive idle_world) = Finished
   \<and> notifications (snd (flashImageToDrive (demo_env (writer WResolves True) False)
            (local_src ''rpi.img'') demo_drive idle_world)) = []
   \<and> stops (snd (flashImageToDrive (demo_env (writer WResolves True) False)
            (local_src ''rpi.img'') demo_drive idle_world)) = 1
   \<and> starts (snd (flashImageToDrive (demo_env (writer WResolves True) False)
            (local_src ''rpi.img'') demo_drive idle_world)) = 1"
  using cancelled_session
          [of idle_world "demo_env (writer WResolves True) False"
              "local_src ''rpi.img''" "''rpi.img''"
              "(driveScanner_stop idle_world)\<lparr>this_imagePath := Some (local_src ''rpi.img'')\<rparr>"
              "(demo_image ''rpi.img'')\<lparr>logo := JBool False, bmap := JBool False\<rparr>"
              "snd (selectImageByPath (demo_env (writer WResolves True) False) ''rpi.img''
                     ((driveScanner_stop idle_world)\<lparr>this_imagePath := Some (local_src ''rpi.img'')\<rparr>))"
              demo_drive]
  by (simp add: demo_defs session_defs notifications_def stops_def starts_def)

text \<open>
  C2, as the code has it. A session with a local image that runs to its end: after the
  entry (the scanner is stopped, the download is skipped) and during validation the
  flag \<open>isFlashing\<close> is false.
\<close>

theorem isFlashing_counterexample:
  "fst (flashImageToDrive (demo_env (writer WResolves False) False)
          (local_src ''rpi.img'') demo_drive idle_world) = Finished
   \<and> \<not> isFlashing (flashState (snd (downloadImageIfNeeded (demo_env (writer WResolves False) False)
          (local_src ''rpi.img'') (driveScanner_stop idle_world))))
   \<and> \<not> isFlashing (flashState (snd (selectImageByPath (demo_env (writer WResolves False) False) ''rpi.img''
          (snd (downloadImageIfNeeded (demo_env (writer WResolves False) False)
                  (local_src ''rpi.img'') (driveScanner_stop idle_world))))))"
  by (simp add: demo_defs session_defs)

text \<open>
  C2, amended. In a session that passes the guard, so that \<open>isFlashing\<close> is false at
  entry, the controller does not raise the flag at entry and does not clear it at the
  end. With a local image the entry and the download step leave the flash state as it
  was, and a session that ends before the writer is called (the validation rejected,
  or the selection left waiting) ends with the flash state of its entry, \<open>isFlashing\<close>
  false. With a remote image the step calls, in this order, \<^verbatim>\<open>setFlashingFlag()\<close>, the
  transfer, \<^verbatim>\<open>setProgressState\<close> once per progress event and, only if the stream ends,
  \<^verbatim>\<open>unsetFlashingFlag({download: true})\<close>, and the flash state is what these calls make
  of it. Validation does not change the flash state. After the session the flash state
  is the one the download step left when the writer is not called, and what the writer
  made of that one when it is: the handlers of the controller do not change it.
\<close>

theorem isFlashing_by_phase:
  assumes "\<not> isFlashing (flashState w)"
  shows "(truthy_str (src_path src) \<longrightarrow>
            flashState (snd (downloadImageIfNeeded E src (driveScanner_stop w))) = flashState w
          \<and> \<not> isFlashing (flashState (snd (downloadImageIfNeeded E src (driveScanner_stop w))))
          \<and> (fst (flashImageToDrive E src drv w) = ValidationRejected r
               \<or> fst (flashImageToDrive E src drv w) = Waiting \<longrightarrow>
              flashState (snd (flashImageToDrive E src drv w)) = flashState w
            \<and> \<not> isFlashing (flashState (snd (flashImageToDrive E src drv w)))))
       \<and> (\<not> truthy_str (src_path src) \<longrightarrow>
            trace (snd (downloadImageIfNeeded E src (driveScanner_stop w))) =
              trace w @ [DriveScannerStop, SetFlashingFlag, Request src ''os.zip''] @
              map (\<lambda>state. SetProgressState (on_progress state)) (ticks (request E src)) @
              (if ends (request E src) then [UnsetFlashingFlag \<lparr>download = True\<rparr>] else [])
          \<and> flashState (snd (downloadImageIfNeeded E src (driveScanner_stop w))) =
              (if ends (request E src) then flashState_unsetFlashingFlag E \<lparr>download = True\<rparr> else id)
                (fold (\<lambda>state fs. fs\<lparr>getFlashState := on_progress state\<rparr>) (ticks (request E src))
                   (flashState_setFlashingFlag E (flashState w))))
       \<and> flashState (snd (selectImageByPath E retPath w1)) = flashState w1
       \<and> flashState (snd (flashImageToDrive E src drv w)) =
           (case fst (downloadImageIfNeeded E src (driveScanner_stop w)) of
              Resolved p \<Rightarrow>
                (case fst (selectImageByPath E p (snd (downloadImageIfNeeded E src (driveScanner_stop w)))) of
                   Resolved res \<Rightarrow>
                     w_effect (flash E (path res) drv)
                       (flashState (snd (downloadImageIfNeeded E src (driveScanner_stop w))))
                 | Rejected err \<Rightarrow> flashState (snd (downloadImageIfNeeded E src (driveScanner_stop w)))
                 | Pending \<Rightarrow> flashState (snd (downloadImageIfNeeded E src (driveScanner_stop w))))
            | Rejected u \<Rightarrow> flashState (snd (downloadImageIfNeeded E src (driveScanner_stop w)))
            | Pending \<Rightarrow> flashState (snd (downloadImageIfNeeded E src (driveScanner_stop w))))"
proof -
  let ?d = "downloadImageIfNeeded E src (driveScanner_stop w)"
  let ?F = "flashImageToDrive E src drv w"
  have final: "flashState (snd ?F) =
           (case fst ?d of
              Resolved p \<Rightarrow>
                (case fst (selectImageByPath E p (snd ?d)) of
                   Resolved res \<Rightarrow> w_effect (flash E (path res) drv) (flashState (snd ?d))
                 | Rejected err \<Rightarrow> flashState (snd ?d)
                 | Pending \<Rightarrow> flashState (snd ?d))
            | Rejected u \<Rightarrow> flashState (snd ?d)
            | Pending \<Rightarrow> flashState (snd ?d))"
  proof (cases ?d)
    case d: (Pair p wd)
    show ?thesis
    proof (cases p)
      case (Resolved retPath')
      show ?thesis
      proof (cases "selectImageByPath E retPath' wd")
        case sel: (Pair q ws)
        have ws: "flashState ws = flashState wd"
          using flashState_selectImageByPath [of E retPath' wd] sel by simp
        show ?thesis
          using assms d Resolved sel ws
          by (cases q) (simp_all add: flashImageToDrive_def flashState_flash_selected)
      qed
    next
      case (Rejected u)
      then show ?thesis using assms d by (simp add: flashImageToDrive_def)
    next
      case Pending
      then show ?thesis using assms d by (simp add: flashImageToDrive_def)
    qed
  qed
  have outcome: "fst ?F =
           (case fst ?d of
              Resolved p \<Rightarrow>
                (case fst (selectImageByPath E p (snd ?d)) of
                   Resolved res \<Rightarrow> fst (flash_selected E res drv (snd (selectImageByPath E p (snd ?d))))
                 | Rejected err \<Rightarrow> ValidationRejected err
                 | Pending \<Rightarrow> Waiting)
            | Rejected u \<Rightarrow> Waiting
            | Pending \<Rightarrow> Waiting)"
    using assms
    by (simp add: flashImageToDrive_def split: prod.splits promise.splits)
  have local: "flashState (snd ?d) = flashState w" if "truthy_str (src_path src)"
    using that
    by (cases "src_path src") (simp_all add: downloadImageIfNeeded_def driveScanner_stop_def)
  have early: "flashState (snd ?F) = flashState w"
    if "truthy_str (src_path src)"
       "fst ?F = ValidationRejected r \<or> fst ?F = Waiting"
    using that(2) local [OF that(1)] unfolding final outcome
    by (auto simp: fst_flash_selected split: promise.splits writer_result.splits)
  have remote_trace: "trace (snd ?d) =
              trace w @ [DriveScannerStop, SetFlashingFlag, Request src ''os.zip''] @
              map (\<lambda>state. SetProgressState (on_progress state)) (ticks (request E src)) @
              (if ends (request E src) then [UnsetFlashingFlag \<lparr>download = True\<rparr>] else [])"
    if "\<not> truthy_str (src_path src)"
    using that
    by (simp add: downloadImageIfNeeded_remote run_download_def Let_def unsetFlashingFlag_def
          trace_download_ticks driveScanner_stop_def)
  have remote_state: "flashState (snd ?d) =
              (if ends (request E src) then flashState_unsetFlashingFlag E \<lparr>download = True\<rparr> else id)
                (fold (\<lambda>state fs. fs\<lparr>getFlashState := on_progress state\<rparr>) (ticks (request E src))
                   (flashState_setFlashingFlag E (flashState w)))"
    if "\<not> truthy_str (src_path src)"
    using that
    by (simp add: downloadImageIfNeeded_remote run_download_def Let_def unsetFlashingFlag_def
          flashState_download_ticks driveScanner_stop_def)
  show ?thesis
    using assms local early remote_trace remote_state final
    by (simp add: flashState_selectImageByPath)
qed

theorem isFlashing_by_phase_witness:
  "\<not> isFlashing (flashState idle_world)
   \<and> truthy_str (src_path (local_src ''notes.txt''))
   \<and> flashState (snd (downloadImageIfNeeded (demo_env (writer WResolves False) False)
          (local_src ''notes.txt'') (driveScanner_stop idle_world))) = flashState idle_world
   \<and> fst (flashImageToDrive (demo_env (writer WResolves False) False)
            (local_src ''notes.txt'') demo_drive idle_world)
       = ValidationRejected (RejImage (demo_image ''notes.txt''))
   \<and> flashState (snd (flashImageToDrive (demo_env (writer WResolves False) False)
            (local_src ''notes.txt'') demo_drive idle_world)) = flashState idle_world
   \<and> \<not> truthy_str (src_path remote_src)
   \<and> trace (snd (downloadImageIfNeeded (demo_env (writer WResolves False) False)
          remote_src (driveScanner_stop idle_world)))
       = [DriveScannerStop, SetFlashingFlag, Request remote_src ''os.zip'',
          SetProgressState \<lparr>ptype = ''download'', percentage = 45, eta = 7, speed = Some 0\<rparr>,
          UnsetFlashingFlag \<lparr>download = True\<rparr>]
   \<and> flashState (snd (flashImageToDrive (demo_env (writer WResolves True) False)
            (local_src ''rpi.img'') demo_drive idle_world))
       = (flashState idle_world)\<lparr>wasLastFlashCancelled := True\<rparr>"
  using isFlashing_by_phase [of idle_world "local_src ''notes.txt''" "demo_env (writer WResolves False) False"
          demo_drive "RejImage (demo_image ''notes.txt'')" "''notes.txt''" idle_world]
        isFlashing_by_phase [of idle_world remote_src "demo_env (writer WResolves False) False"
          demo_drive "RejImage (demo_image ''notes.txt'')" "''./os.zip''" idle_world]
        isFlashing_by_phase [of idle_world "local_src ''rpi.img''" "demo_env (writer WResolves True) False"
          demo_drive "RejImage (demo_image ''notes.txt'')" "''rpi.img''" idle_world]
  by (simp add: demo_defs session_defs)

text \<open>
  C1, on the code. Two sessions that stop the drive scanner and never start it again:
  one whose image is refused by the validation (the rejection of \<^verbatim>\<open>selectImageByPath\<close>
  has no handler), and one whose writer throws when called (the exception leaves the
  callback before \<^verbatim>\<open>finally\<close> is attached).
\<close>

theorem scanner_left_stopped:
  "fst (flashImageToDrive (demo_env (writer WResolves False) False)
          (local_src ''notes.txt'') demo_drive idle_world)
     = ValidationRejected (RejImage (demo_image ''notes.txt''))
   \<and> stops (snd (flashImageToDrive (demo_env (writer WResolves False) False)
          (local_src ''notes.txt'') demo_drive idle_world)) = 1
   \<and> starts (snd (flashImageToDrive (demo_env (writer WResolves False) False)
          (local_src ''notes.txt'') demo_drive idle_world)) = 0
   \<and> fst (flashImageToDrive (demo_env (writer (WThrows (demo_error None)) False) False)
          (local_src ''rpi.img'') demo_drive idle_world)
     = WriterThrew (demo_error None)
   \<and> stops (snd (flashImageToDrive (demo_env (writer (WThrows (demo_error None)) False) False)
          (local_src ''rpi.img'') demo_drive idle_world)) = 1
   \<and> starts (snd (flashImageToDrive (demo_env (writer (WThrows (demo_error None)) False) False)
          (local_src ''rpi.img'') demo_drive idle_world)) = 0"
  by (simp add: demo_defs session_defs stops_def starts_def)

text \<open>
  The same for every session: one that ends with the rejection of the validation, or
  with an exception of the call of the writer, has stopped the scanner once and has not
  started it.
\<close>

lemma scanner_not_restarted:
  assumes "fst (flashImageToDrive E src drv w) = ValidationRejected r
         \<or> fst (flashImageToDrive E src drv w) = WriterThrew err"
  shows "stops (snd (flashImageToDrive E src drv w)) = stops w + 1
       \<and> starts (snd (flashImageToDrive E src drv w)) = starts w"
proof -
  have guard: "\<not> isFlashing (flashState w)"
    using assms by (auto simp: flashImageToDrive_def split: if_splits)
  obtain p w1 where d: "downloadImageIfNeeded E src (driveScanner_stop w) = (p, w1)"
    by (cases "downloadImageIfNeeded E src (driveScanner_stop w)")
  obtain retPath where p: "p = Resolved retPath"
    using assms guard d by (cases p) (auto simp: flashImageToDrive_def)
  obtain q w2 where sel: "selectImageByPath E retPath w1 = (q, w2)"
    by (cases "selectImageByPath E retPath w1")
  note before = before_writer [OF d [unfolded p] sel]
  show ?thesis
  proof (cases q)
    case (Rejected x)
    then show ?thesis
      using guard d p sel before(4,5) by (simp add: flashImageToDrive_def)
  next
    case Pending
    then show ?thesis
      using assms guard d p sel by (simp add: flashImageToDrive_def)
  next
    case (Resolved res)
    have run: "flashImageToDrive E src drv w = flash_selected E res drv w2"
      using guard d p sel Resolved by (simp add: flashImageToDrive_def)
    obtain e where thr: "w_result (flash E (path res) drv) = WThrows e"
      using assms unfolding run fst_flash_selected
      by (cases "w_result (flash E (path res) drv)") auto
    show ?thesis
      using before(4,5) unfolding run stops_def starts_def
      by (simp add: trace_flash_selected_throws [OF thr])
  qed
qed

text \<open>
  What the code does hold to: a session that reaches the writer, and whose writer
  settles its promise, ends with one more \<^verbatim>\<open>stop()\<close> and one more \<^verbatim>\<open>start()\<close>.
\<close>

lemma scanner_restarted_when_writer_settles:
  assumes "\<not> isFlashing (flashState w)"
      and "downloadImageIfNeeded E src (driveScanner_stop w) = (Resolved retPath, w1)"
      and "selectImageByPath E retPath w1 = (Resolved res, w2)"
      and "w_result (flash E (path res) drv) = WResolves \<or> w_result (flash E (path res) drv) = WRejects err"
  shows "stops (snd (flashImageToDrive E src drv w)) = stops w + 1
       \<and> starts (snd (flashImageToDrive E src drv w)) = starts w + 1"
proof -
  have run: "flashImageToDrive E src drv w = flash_selected E res drv w2"
    using assms(1-3) by (rule flashImageToDrive_selected)
  note before = before_writer [OF assms(2,3)]
  from assms(4) show ?thesis
  proof
    assume "w_result (flash E (path res) drv) = WResolves"
    then show ?thesis
      using before(4,5) unfolding run stops_def starts_def
      by (simp add: trace_flash_selected_resolves)
  next
    assume "w_result (flash E (path res) drv) = WRejects err"
    then show ?thesis
      using before(4,5) unfolding run stops_def starts_def
      by (simp add: trace_flash_selected_rejects)
  qed
qed

text \<open>
  C8, as the code has it. While a flash is in progress and no download is, the label is
  \<^verbatim>\<open>Flash!\<close>, whatever the progress: at 0 percent with no speed, and at 45 percent of
  the validation.
\<close>

theorem getProgressButtonLabel_counterexample:
  "getProgressButtonLabel (demo_env (writer WResolves False) False)
     \<lparr>isFlashing = True, isDownloading = False, wasLastFlashCancelled = False,
      getFlashState = \<lparr>ptype = ''write'', percentage = 0, eta = 0, speed = Some 0\<rparr>\<rparr> = ''Flash!''
   \<and> getProgressButtonLabel (demo_env (writer WResolves False) False)
     \<lparr>isFlashing = True, isDownloading = False, wasLastFlashCancelled = False,
      getFlashState = \<lparr>ptype = ''check'', percentage = 45, eta = 3, speed = Some 1000\<rparr>\<rparr> = ''Flash!''"
  by (simp add: getProgressButtonLabel_def)

text \<open>
  C8, amended. The label is a function of the flash state and of the setting
  \<^verbatim>\<open>unmountOnSuccess\<close>: \<^verbatim>\<open>Flash!\<close> unless both a download and a flash are flagged;
  then \<^verbatim>\<open>Starting...\<close> at 0 percent with no speed; at 100 percent \<^verbatim>\<open>Unmounting...\<close> when
  the type is \<^verbatim>\<open>check\<close> and the setting is on, else \<^verbatim>\<open>Finishing...\<close>; the percentage
  followed by \<^verbatim>\<open>% Validating...\<close> for the type \<^verbatim>\<open>check\<close>, by \<^verbatim>\<open>% Downloading...\<close> for
  the type \<^verbatim>\<open>download\<close>, and by \<^verbatim>\<open>%\<close> otherwise.
\<close>

theorem getProgressButtonLabel_cases:
  "getProgressButtonLabel E fs =
     (if \<not> (isDownloading fs \<and> isFlashing fs) then ''Flash!''
      else if percentage (getFlashState fs) = 0 \<and> \<not> truthy_num (speed (getFlashState fs))
      then ''Starting...''
      else if percentage (getFlashState fs) = 100
      then (if ptype (getFlashState fs) = ''check'' \<and> unmountOnSuccess E
            then ''Unmounting...'' else ''Finishing...'')
      else if ptype (getFlashState fs) = ''check''
      then show_nat (percentage (getFlashState fs)) @ ''% Validating...''
      else if ptype (getFlashState fs) = ''download''
      then show_nat (percentage (getFlashState fs)) @ ''% Downloading...''
      else show_nat (percentage (getFlashState fs)) @ ''%'')"
  by (simp add: getProgressButtonLabel_def Let_def PERCENTAGE_MINIMUM_def PERCENTAGE_MAXIMUM_def)

text \<open>The examples of the specification, with both flags set.\<close>

lemma getProgressButtonLabel_examples:
  "getProgressButtonLabel (demo_env (writer WResolves False) False)
     \<lparr>isFlashing = False, isDownloading = False, wasLastFlashCancelled = False,
      getFlashState = \<lparr>ptype = [], percentage = 0, eta = 0, speed = Some 0\<rparr>\<rparr> = ''Flash!''"
  "getProgressButtonLabel (demo_env (writer WResolves False) False)
     \<lparr>isFlashing = True, isDownloading = True, wasLastFlashCancelled = False,
      getFlashState = \<lparr>ptype = ''download'', percentage = 0, eta = 0, speed = None\<rparr>\<rparr> = ''Starting...''"
  "getProgressButtonLabel (demo_env (writer WResolves False) False)
     \<lparr>isFlashing = True, isDownloading = True, wasLastFlashCancelled = False,
      getFlashState = \<lparr>ptype = ''download'', percentage = 45, eta = 3, speed = Some 1000\<rparr>\<rparr>
   = ''45% Downloading...''"
  by (simp_all add: getProgressButtonLabel_def Let_def PERCENTAGE_MINIMUM_def PERCENTAGE_MAXIMUM_def
        show_nat.simps)

end
